theory Spec2Isabelle
  imports Complex_Main "HOL-Library.AList" "HOL-Library.Sublist" "HOL-Library.Word"
begin

section \<open>Data model\<close>

text \<open>
  The sole persisted entity is the Attendance document that
  \<^verbatim>\<open>controllers/attendanceController.js\<close> creates, queries and updates. Identifiers
  (the document's \<^verbatim>\<open>_id\<close>, the faculty and student ObjectIds) are strings, timestamps
  (\<^verbatim>\<open>Date\<close>) are integers counting milliseconds since the epoch, and the
  \<^verbatim>\<open>status\<close> strings \<^verbatim>\<open>'active'\<close> and \<^verbatim>\<open>'expired'\<close> are the two values of a
  datatype.
\<close>

datatype sessionStatus = Active | Expired

record attendance =
  oid :: string
  faculty :: string
  subject :: string
  sessionDate :: int
  qrCode :: string
  classRoom :: string
  markedStudents :: "string list"
  status :: sessionStatus

text \<open>
  The collection is the list of its documents in insertion order; \<^verbatim>\<open>findOne\<close>
  returns the first document matching its filter. The one-shot timers registered with
  \<^verbatim>\<open>setTimeout\<close> are part of the state: each is the time at which it is due and the
  \<^verbatim>\<open>_id\<close> its callback closes over.
\<close>

record state =
  sessions :: "attendance list"
  timers :: "(int \<times> string) list"

text \<open>
  A handler answers with \<^verbatim>\<open>res.json(body)\<close> or with
  \<^verbatim>\<open>res.status(code).json({ message })\<close>. The \<^verbatim>\<open>error\<close> detail that the
  outermost \<^verbatim>\<open>catch\<close> blocks add to the body of a 500 is not modelled.
\<close>

datatype 'a response = Json 'a | Error nat string

text \<open>
  JavaScript truthiness of an optional string of the request: \<^verbatim>\<open>undefined\<close> and the
  empty string are falsy.
\<close>

fun truthy :: "string option \<Rightarrow> bool" where
  "truthy None = False"
| "truthy (Some s) = (s \<noteq> [])"

section \<open>Session lifecycle\<close>

subsection \<open>Hex encoding of the random bytes\<close>

definition hexDigits :: string where
  "hexDigits = ''0123456789abcdef''"

definition hexDigit :: "nat \<Rightarrow> char" where
  "hexDigit n = hexDigits ! (n mod 16)"

definition byteHex :: "8 word \<Rightarrow> string" where
  "byteHex b = [hexDigit (unat b div 16), hexDigit (unat b mod 16)]"

definition toHex :: "8 word list \<Rightarrow> string" where
  "toHex bs = concat (map byteHex bs)"

subsection \<open>generateSessionQR\<close>

record qrReply =
  message :: string
  qrCodeOut :: string
  sessionId :: string
  expiresIn :: string

text \<open>
  The environment of one call: \<open>randomBytes n\<close> is the outcome of
  \<^verbatim>\<open>crypto.randomBytes(n)\<close> (\<open>None\<close> when it throws), \<open>newId\<close> the
  \<^verbatim>\<open>_id\<close> the new document receives, \<open>saveThrows\<close> whether
  \<^verbatim>\<open>attendanceSession.save()\<close> rejects, \<open>now\<close> the clock. \<open>user\<close> is
  \<^verbatim>\<open>req.user._id\<close> (\<open>None\<close> when \<^verbatim>\<open>req.user\<close> is missing), \<open>subj\<close> and
  \<open>room\<close> are the body's \<^verbatim>\<open>subject\<close> and \<^verbatim>\<open>classRoom\<close>.
\<close>

definition generateSessionQR ::
  "(nat \<Rightarrow> 8 word list option) \<Rightarrow> string \<Rightarrow> bool \<Rightarrow> int \<Rightarrow>
   string option \<Rightarrow> string option \<Rightarrow> string option \<Rightarrow> state \<Rightarrow> state \<times> qrReply response"
where
  "generateSessionQR randomBytes newId saveThrows now user subj room st =
    (case user of
      None \<Rightarrow> (st, Error 401 ''Unauthorized: Faculty ID missing'')
    | Some fac \<Rightarrow>
        if \<not> truthy subj \<or> \<not> truthy room
        then (st, Error 400 ''Subject and Classroom are required'')
        else
          (case randomBytes 32 of
            None \<Rightarrow> (st, Error 500 ''Error generating QR code'')
          | Some bytes \<Rightarrow>
              let qrData = toHex bytes;
                  attendanceSession =
                    \<lparr> oid = newId, faculty = fac, subject = the subj, sessionDate = now,
                      qrCode = qrData, classRoom = the room, markedStudents = [],
                      status = Active \<rparr>
              in if saveThrows
                 then (st, Error 500 ''Error generating QR code'')
                 else
                   (st \<lparr> sessions := sessions st @ [attendanceSession],
                         timers := timers st @ [(now + 2 * 60 * 1000, newId)] \<rparr>,
                    Json \<lparr> message = ''Session QR code generated successfully'',
                           qrCodeOut = qrData, sessionId = newId,
                           expiresIn = ''2 minutes'' \<rparr>)))"

subsection \<open>The deferred expiry\<close>

text \<open>
  The timer's callback: \<^verbatim>\<open>findById\<close>, and only when the document is there and still
  active, set it to expired and save. Any error (\<open>findThrows\<close>, \<open>saveThrows\<close>) is
  swallowed by the callback's own \<^verbatim>\<open>catch\<close>.
\<close>

fun setExpired :: "string \<Rightarrow> attendance list \<Rightarrow> attendance list" where
  "setExpired i [] = []"
| "setExpired i (s # ss) =
     (if oid s = i
      then (if status s = Active then s \<lparr> status := Expired \<rparr> # ss else s # ss)
      else s # setExpired i ss)"

definition expireSession :: "bool \<Rightarrow> bool \<Rightarrow> string \<Rightarrow> attendance list \<Rightarrow> attendance list" where
  "expireSession findThrows saveThrows i db =
     (if findThrows \<or> saveThrows then db else setExpired i db)"

text \<open>
  The \<open>k\<close>-th pending timer fires: it leaves the pending list and its callback runs.
\<close>

definition fireTimer :: "bool \<Rightarrow> bool \<Rightarrow> nat \<Rightarrow> state \<Rightarrow> state" where
  "fireTimer findThrows saveThrows k st =
     (if k < length (timers st)
      then st \<lparr> sessions := expireSession findThrows saveThrows (snd (timers st ! k)) (sessions st),
                timers := take k (timers st) @ drop (Suc k) (timers st) \<rparr>
      else st)"

subsection \<open>markAttendance\<close>

text \<open>
  The filter of \<^verbatim>\<open>findOne\<close>: the code, \<^verbatim>\<open>sessionDate >= now - 2 min\<close>, and
  \<^verbatim>\<open>status: 'active'\<close>.
\<close>

definition redeemable :: "int \<Rightarrow> string \<Rightarrow> attendance \<Rightarrow> bool" where
  "redeemable now code s \<longleftrightarrow>
     qrCode s = code \<and> sessionDate s \<ge> now - 2 * 60 * 1000 \<and> status s = Active"

text \<open>
  One pass over the collection: the first document matching the filter is the one
  \<^verbatim>\<open>findOne\<close> returns; the duplicate test and the push and save act on that
  document. \<^verbatim>\<open>markedStudents.includes\<close> of a Mongoose array compares identifiers by
  value, which is list membership here.
\<close>

fun redeem :: "int \<Rightarrow> string \<Rightarrow> string \<Rightarrow> bool \<Rightarrow> attendance list \<Rightarrow> attendance list \<times> unit response" where
  "redeem now code student saveThrows [] = ([], Error 400 ''Invalid or expired QR code'')"
| "redeem now code student saveThrows (s # ss) =
     (if redeemable now code s
      then
        (if student \<in> set (markedStudents s)
         then (s # ss, Error 400 ''Attendance already marked for this session'')
         else if saveThrows then (s # ss, Error 500 ''Error marking attendance'')
         else (s \<lparr> markedStudents := markedStudents s @ [student] \<rparr> # ss, Json ()))
      else
        (case redeem now code student saveThrows ss of (ss', r) \<Rightarrow> (s # ss', r)))"

text \<open>
  \<open>user\<close> is \<^verbatim>\<open>req.user\<close>'s identifier: reading \<^verbatim>\<open>req.user._id\<close> of a missing
  user throws, which the handler's \<^verbatim>\<open>catch\<close> turns into a 500, as it does when the
  store's \<^verbatim>\<open>findOne\<close> rejects (\<open>findThrows\<close>).
\<close>

definition markAttendance ::
  "bool \<Rightarrow> bool \<Rightarrow> int \<Rightarrow> string option \<Rightarrow> string \<Rightarrow> attendance list \<Rightarrow> attendance list \<times> unit response"
where
  "markAttendance findThrows saveThrows now user code db =
     (case user of
       None \<Rightarrow> (db, Error 500 ''Error marking attendance'')
     | Some student \<Rightarrow>
         if findThrows then (db, Error 500 ''Error marking attendance'')
         else redeem now code student saveThrows db)"


section \<open>Report aggregation\<close>

text \<open>
  The User collection, read by \<^verbatim>\<open>populate("markedStudents", "name email")\<close>: a map
  from the user's \<^verbatim>\<open>_id\<close> to the two selected fields, each possibly missing.
  Populating an array drops the identifiers that have no document.
\<close>

record user =
  name :: "string option"
  email :: "string option"

definition populate :: "(string \<rightharpoonup> user) \<Rightarrow> string list \<Rightarrow> (string \<times> user) list" where
  "populate users ids = List.map_filter (\<lambda>i. map_option (Pair i) (users i)) ids"

text \<open>
  \<^verbatim>\<open>Number(x.toFixed(2))\<close>: the multiple of 1/100 nearest to \<open>x\<close>, the larger one of
  two equally near. The IEEE doubles of the source are idealised as rationals.
\<close>

definition toFixed2 :: "rat \<Rightarrow> rat" where
  "toFixed2 x = rat_of_int \<lfloor>x * 100 + 1 / 2\<rfloor> / 100"

text \<open>
  \<^verbatim>\<open>sessionDate.toISOString().split("T")[0]\<close> is the UTC calendar date. Two
  timestamps have the same date string exactly when they fall on the same UTC day, so
  the key is the number of that day.
\<close>

definition isoDate :: "int \<Rightarrow> int" where
  "isoDate t = t div (24 * 60 * 60 * 1000)"

text \<open>\<^verbatim>\<open>Set.prototype.add\<close>, the set kept as the list of its members in insertion order.\<close>

definition setAdd :: "'a \<Rightarrow> 'a list \<Rightarrow> 'a list" where
  "setAdd x xs = (if x \<in> set xs then xs else xs @ [x])"

subsection \<open>getAttendanceReport\<close>

record studentEntry =
  entryName :: "string option"
  entryEmail :: "string option"
  attendanceCount :: nat



text \<open>
  \<^verbatim>\<open>report\<close> is a \<^verbatim>\<open>Map\<close> from subject to
  \<^verbatim>\<open>{ totalSessions: Set, students: {} }\<close>; the map and the \<^verbatim>\<open>students\<close>
  object (keyed by the student's identifier) are association lists in insertion order.
\<close>

type_synonym subjectData = "int list \<times> (string \<times> studentEntry) list"

definition countStudent ::
  "(string \<times> studentEntry) list \<Rightarrow> string \<times> user \<Rightarrow> (string \<times> studentEntry) list" where
  "countStudent studs student =
     (let studs1 =
        (if map_of studs (fst student) = None
         then AList.update (fst student)
                \<lparr> entryName = name (snd student), entryEmail = email (snd student),
                  attendanceCount = 0 \<rparr> studs
         else studs)
      in AList.map_entry (fst student)
           (\<lambda>e. e \<lparr> attendanceCount := attendanceCount e + 1 \<rparr>) studs1)"

definition addRecord ::
  "(string \<rightharpoonup> user) \<Rightarrow> (string \<times> subjectData) list \<Rightarrow> attendance \<Rightarrow> (string \<times> subjectData) list" where
  "addRecord users report rec =
     (let report1 =
        (if map_of report (subject rec) = None
         then AList.update (subject rec) ([], []) report
         else report)
      in AList.map_entry (subject rec)
           (\<lambda>(dates, studs).
              (setAdd (isoDate (sessionDate rec)) dates,
               foldl countStudent studs (populate users (markedStudents rec))))
           report1)"








text \<open>\<^verbatim>\<open>.sort({ sessionDate: -1 })\<close>; the order among equal dates is the store's choice.\<close>

definition newestFirst :: "attendance list \<Rightarrow> attendance list" where
  "newestFirst records = sort_key (\<lambda>s. - sessionDate s) records"


subsection \<open>getStudentAttendance\<close>

record subjectAttendance =
  totalClasses :: nat
  attended :: nat
  attendancePercentageOf :: "rat option"

text \<open>
  Here \<^verbatim>\<open>report\<close> is a plain object read with \<^verbatim>\<open>report[record.subject]\<close>. For
  a subject that names a member of \<^verbatim>\<open>Object.prototype\<close> the read finds the inherited
  member, which is truthy, so no member of \<^verbatim>\<open>report\<close> is created and the three
  writes land on the inherited object: the subject never appears in the JSON body.
\<close>

definition objectPrototypeKeys :: "string list" where
  "objectPrototypeKeys =
     [''constructor'', ''__proto__'', ''hasOwnProperty'', ''isPrototypeOf'',
      ''propertyIsEnumerable'', ''toLocaleString'', ''toString'', ''valueOf'',
      ''__defineGetter__'', ''__defineSetter__'', ''__lookupGetter__'', ''__lookupSetter__'']"

definition addClass ::
  "(string \<times> subjectAttendance) list \<Rightarrow> attendance \<Rightarrow> (string \<times> subjectAttendance) list" where
  "addClass report rec =
     (if subject rec \<in> set objectPrototypeKeys then report
      else
        let report1 =
          (if map_of report (subject rec) = None
           then AList.update (subject rec)
                  \<lparr> totalClasses = 0, attended = 0, attendancePercentageOf = None \<rparr> report
           else report)
        in AList.map_entry (subject rec)
             (\<lambda>e. let e1 = e \<lparr> totalClasses := totalClasses e + 1 \<rparr>;
                      e2 = e1 \<lparr> attended := attended e1 + 1 \<rparr>
                  in e2 \<lparr> attendancePercentageOf :=
                            Some (toFixed2 (rat_of_nat (attended e2) / rat_of_nat (totalClasses e2) * 100)) \<rparr>)
             report1)"

definition studentQuery :: "string \<Rightarrow> string option \<Rightarrow> attendance \<Rightarrow> bool" where
  "studentQuery student subj s \<longleftrightarrow>
     student \<in> set (markedStudents s) \<and>
     (if truthy subj then subject s = the subj else True)"

definition getStudentAttendance ::
  "bool \<Rightarrow> string option \<Rightarrow> string option \<Rightarrow> attendance list \<Rightarrow>
   (string \<times> subjectAttendance) list response" where
  "getStudentAttendance findThrows usr subj db =
     (case usr of
        None \<Rightarrow> Error 500 ''Error fetching attendance''
      | Some student \<Rightarrow>
          if findThrows then Error 500 ''Error fetching attendance''
          else Json (foldl addClass [] (newestFirst (filter (studentQuery student subj) db))))"

section \<open>Session detail and export\<close>

subsection \<open>getSessionDetails\<close>

record rosterEntry =
  rosterId :: string
  rosterName :: string
  rosterEmail :: string

record sessionDetails =
  detailSessionId :: string
  detailSubject :: string
  detailClassRoom :: string
  detailSessionDate :: int
  detailStatus :: sessionStatus
  detailStudents :: "rosterEntry list"

text \<open>\<^verbatim>\<open>x || d\<close> on a string that may be missing.\<close>

definition orElse :: "string option \<Rightarrow> string \<Rightarrow> string" where
  "orElse x d = (if truthy x then the x else d)"

definition rosterOf :: "(string \<times> user) list \<Rightarrow> rosterEntry list" where
  "rosterOf studs =
     map (\<lambda>student. \<lparr> rosterId = fst student,
                       rosterName = orElse (name (snd student)) ''Unknown'',
                       rosterEmail = orElse (email (snd student)) ''No email'' \<rparr>) studs"

text \<open>
  \<open>sessionIdParam\<close> is \<^verbatim>\<open>req.params.sessionId\<close>; its \<^verbatim>\<open>length\<close> is the number
  of its characters. \<open>existsThrows\<close> and \<open>findThrows\<close> say whether
  \<^verbatim>\<open>Attendance.exists\<close> and \<^verbatim>\<open>Attendance.findOne\<close> reject, each caught by its
  own \<^verbatim>\<open>try\<close>. The session's date and status are objects and non-empty strings, so
  their \<^verbatim>\<open>||\<close> defaults are never taken.
\<close>

definition getSessionDetails ::
  "bool \<Rightarrow> bool \<Rightarrow> (string \<rightharpoonup> user) \<Rightarrow> string \<Rightarrow> string option \<Rightarrow> attendance list \<Rightarrow>
   sessionDetails response" where
  "getSessionDetails existsThrows findThrows users sessionIdParam usr db =
     (if sessionIdParam = [] then Error 400 ''Session ID is required''
      else
        (case usr of
           None \<Rightarrow> Error 401 ''Unauthorized: Faculty ID missing''
         | Some fac \<Rightarrow>
             if length sessionIdParam \<noteq> 24 then Error 400 ''Invalid session ID format''
             else if existsThrows then Error 500 ''Error checking session existence''
             else if \<not> list_ex (\<lambda>s. oid s = sessionIdParam) db
               then Error 404 ''Session not found''
             else if findThrows then Error 500 ''Error finding session''
             else
               (case List.find (\<lambda>s. oid s = sessionIdParam \<and> faculty s = fac) db of
                  None \<Rightarrow> Error 403 ''You don't have access to this session''
                | Some session \<Rightarrow>
                    Json \<lparr> detailSessionId = oid session,
                           detailSubject = orElse (Some (subject session)) ''Unknown'',
                           detailClassRoom = orElse (Some (classRoom session)) ''Unknown'',
                           detailSessionDate = sessionDate session,
                           detailStatus = status session,
                           detailStudents =
                             rosterOf (populate users (markedStudents session)) \<rparr>)))"

subsection \<open>exportSessionToExcel\<close>

text \<open>
  The worksheet as the list of its rows, each the list of its cells. The two locale
  renderings of the session's date and the ISO date of the clock are given by the
  environment (\<open>localeDate\<close>, \<open>localeTime\<close>, \<open>isoDay\<close>); \<open>writeThrows\<close> says
  whether writing the workbook to the response fails.
\<close>

record workbook =
  contentDisposition :: string
  rows :: "string list list"

definition statusString :: "sessionStatus \<Rightarrow> string" where
  "statusString st = (case st of Active \<Rightarrow> ''active'' | Expired \<Rightarrow> ''expired'')"

definition cell :: "string option \<Rightarrow> string" where
  "cell x = (case x of None \<Rightarrow> [] | Some v \<Rightarrow> v)"

definition exportSessionToExcel ::
  "bool \<Rightarrow> bool \<Rightarrow> (int \<Rightarrow> string) \<Rightarrow> (int \<Rightarrow> string) \<Rightarrow> (int \<Rightarrow> string) \<Rightarrow> int \<Rightarrow>
   (string \<rightharpoonup> user) \<Rightarrow> string \<Rightarrow> string option \<Rightarrow> attendance list \<Rightarrow> workbook response" where
  "exportSessionToExcel findThrows writeThrows localeDate localeTime isoDay now
     users sessionIdParam usr db =
     (case usr of
        None \<Rightarrow> Error 500 ''Error exporting to Excel''
      | Some fac \<Rightarrow>
          if findThrows then Error 500 ''Error exporting to Excel''
          else
            (case List.find (\<lambda>s. oid s = sessionIdParam \<and> faculty s = fac) db of
               None \<Rightarrow> Error 404 ''Session not found''
             | Some session \<Rightarrow>
                 if writeThrows then Error 500 ''Error exporting to Excel''
                 else
                   Json \<lparr> contentDisposition =
                            ''attachment; filename=attendance_'' @ subject session @ ''_''
                              @ isoDay now @ ''.xlsx'',
                          rows =
                            [[''Student Name'', ''Email'', ''Attendance Status''],
                             [],
                             [''Subject'', subject session],
                             [''Classroom'', classRoom session],
                             [''Date'', localeDate (sessionDate session)],
                             [''Time'', localeTime (sessionDate session)],
                             [''Status'', statusString (status session)],
                             [],
                             [''Student List''],
                             []]
                            @ map (\<lambda>student. [cell (name (snd student)),
                                                cell (email (snd student)), ''Present''])
                                (populate users (markedStudents session)) \<rparr>))"

section \<open>Routes\<close>

text \<open>
  \<^verbatim>\<open>routes/attendanceRoutes.js\<close>, mounted by the application under
  \<^verbatim>\<open>/api/attendance\<close>: each registration is the method, the path pattern, the role
  its middleware admits and the controller it ends in. Paths are lists of segments; a
  pattern segment that starts with a colon matches any non-empty segment.
\<close>

datatype httpMethod = GET | POST

datatype role = Faculty | Student

datatype controller =
    GenerateSessionQR | MarkAttendance | GetAttendanceReport
  | GetStudentAttendance | GetSessionDetails | ExportSessionToExcel

definition attendanceRoutes :: "(httpMethod \<times> string list \<times> role \<times> controller) list" where
  "attendanceRoutes =
     [(POST, [''generate-qr''], Faculty, GenerateSessionQR),
      (GET, [''report''], Faculty, GetAttendanceReport),
      (GET, [''session'', '':sessionId''], Faculty, GetSessionDetails),
      (GET, [''export'', '':sessionId''], Faculty, ExportSessionToExcel),
      (POST, [''mark''], Student, MarkAttendance),
      (GET, [''my-attendance''], Student, GetStudentAttendance)]"

fun matchPath :: "string list \<Rightarrow> string list \<Rightarrow> bool" where
  "matchPath [] [] = True"
| "matchPath (p # ps) (x # xs) =
     ((if take 1 p = '':'' then x \<noteq> [] else x = p) \<and> matchPath ps xs)"
| "matchPath _ _ = False"

definition route :: "httpMethod \<Rightarrow> string list \<Rightarrow> (role \<times> controller) option" where
  "route m path =
     (case path of
        a # b # rest \<Rightarrow>
          if a = ''api'' \<and> b = ''attendance''
          then map_option (\<lambda>r. snd (snd r))
                 (List.find (\<lambda>r. fst r = m \<and> matchPath (fst (snd r)) rest) attendanceRoutes)
          else None
      | _ \<Rightarrow> None)"

section \<open>The system as a state machine\<close>

text \<open>
  The requests and timer firings that change the state, each with the environment of
  its call. A handler runs to completion before the next event; the report, detail and
  export handlers only read the state.
\<close>

datatype event =
    Generate "nat \<Rightarrow> 8 word list option" string bool int "string option" "string option" "string option"
  | Mark bool bool int "string option" string
  | Fire bool bool nat

fun step :: "state \<Rightarrow> event \<Rightarrow> state" where
  "step st (Generate randomBytes newId saveThrows now usr subj room) =
     fst (generateSessionQR randomBytes newId saveThrows now usr subj room st)"
| "step st (Mark findThrows saveThrows now usr code) =
     st \<lparr> sessions := fst (markAttendance findThrows saveThrows now usr code (sessions st)) \<rparr>"
| "step st (Fire findThrows saveThrows k) = fireTimer findThrows saveThrows k st"

definition run :: "state \<Rightarrow> event list \<Rightarrow> state" where
  "run st evs = foldl step st evs"

definition initial :: state where
  "initial = \<lparr> sessions = [], timers = [] \<rparr>"

section \<open>Example data\<close>

text \<open>Concrete documents and environments at which the properties below are evaluated.\<close>

definition exSession :: attendance where
  "exSession = \<lparr> oid = ''64b7f0a1c2d3e4f5a6b7c8d9'', faculty = ''fac1'', subject = ''CS101'',
     sessionDate = 0, qrCode = ''c0de'', classRoom = ''A1'', markedStudents = [],
     status = Active \<rparr>"

definition exRedeemed :: attendance where
  "exRedeemed = exSession \<lparr> markedStudents := [''stu1''] \<rparr>"

definition exExpired :: attendance where
  "exExpired = exRedeemed \<lparr> status := Expired \<rparr>"

definition exRandom :: "nat \<Rightarrow> 8 word list option" where
  "exRandom n = Some (replicate n 171)"


definition exUsers :: "string \<rightharpoonup> user" where
  "exUsers i = (if i = ''stu1'' then Some \<lparr> name = Some ''Ann'', email = Some ''ann@example.org'' \<rparr>
                else if i = ''stu2'' then Some \<lparr> name = Some ''Bob'', email = None \<rparr>
                else None)"

definition exMorning :: attendance where
  "exMorning = \<lparr> oid = ''64b7f0a1c2d3e4f5a6b7c8d9'', faculty = ''fac1'', subject = ''CS101'',
     sessionDate = 0, qrCode = ''c0de'', classRoom = ''A1'', markedStudents = [''stu1'', ''stu2''],
     status = Expired \<rparr>"

definition exAfternoon :: attendance where
  "exAfternoon = \<lparr> oid = ''64b7f0a1c2d3e4f5a6b7c8da'', faculty = ''fac1'', subject = ''CS101'',
     sessionDate = 6 * 60 * 60 * 1000, qrCode = ''beef'', classRoom = ''A1'',
     markedStudents = [''stu1''], status = Expired \<rparr>"




section \<open>Properties of the session lifecycle\<close>

subsection \<open>Auxiliary facts\<close>

lemma redeem_length: "length (fst (redeem now code u sv db)) = length db"
  by (induction db) (simp_all add: split_beta)



lemma redeem_pos:
  "i < length db \<Longrightarrow>
   fst (redeem now code u sv db) ! i = db ! i \<or>
   (redeemable now code (db ! i) \<and> u \<notin> set (markedStudents (db ! i)) \<and>
    fst (redeem now code u sv db) ! i = (db ! i) \<lparr> markedStudents := markedStudents (db ! i) @ [u] \<rparr>)"
proof (induction db arbitrary: i)
  case Nil
  then show ?case by simp
next
  case (Cons s ss)
  show ?case
  proof (cases i)
    case 0
    then show ?thesis by (simp add: split_beta)
  next
    case (Suc j)
    with Cons.prems have "j < length ss" by simp
    from Cons.IH [OF this] Suc show ?thesis by (simp add: split_beta)
  qed
qed


lemma setExpired_length: "length (setExpired i db) = length db"
  by (induction db) simp_all

lemma setExpired_pos:
  "j < length db \<Longrightarrow>
   setExpired i db ! j = db ! j \<or>
   (status (db ! j) = Active \<and> oid (db ! j) = i \<and> setExpired i db ! j = (db ! j) \<lparr> status := Expired \<rparr>)"
proof (induction db arbitrary: j)
  case Nil
  then show ?case by simp
next
  case (Cons s ss)
  show ?case
  proof (cases j)
    case 0
    then show ?thesis by simp
  next
    case (Suc k)
    with Cons.prems have "k < length ss" by simp
    from Cons.IH [OF this] Suc show ?thesis by simp
  qed
qed

lemma setExpired_idem: "setExpired i (setExpired i db) = setExpired i db"
  by (induction db) simp_all

lemma markAttendance_length:
  "length (fst (markAttendance ft sv now usr code db)) = length db"
  by (simp add: markAttendance_def redeem_length split: option.splits)

lemma markAttendance_pos:
  "i < length db \<Longrightarrow>
   fst (markAttendance ft sv now usr code db) ! i = db ! i \<or>
   (\<exists>u. redeemable now code (db ! i) \<and> u \<notin> set (markedStudents (db ! i)) \<and>
    fst (markAttendance ft sv now usr code db) ! i = (db ! i) \<lparr> markedStudents := markedStudents (db ! i) @ [u] \<rparr>)"
  using redeem_pos [of i db now code _ sv]
  by (auto simp: markAttendance_def split: option.splits)

lemma expireSession_length: "length (expireSession ft sv i db) = length db"
  by (simp add: expireSession_def setExpired_length)

lemma expireSession_pos:
  "j < length db \<Longrightarrow>
   expireSession ft sv i db ! j = db ! j \<or>
   (status (db ! j) = Active \<and> oid (db ! j) = i \<and> expireSession ft sv i db ! j = (db ! j) \<lparr> status := Expired \<rparr>)"
  using setExpired_pos [of j db i] by (simp add: expireSession_def)

lemma generateSessionQR_sessions:
  "sessions (fst (generateSessionQR rb newId sv now usr subj room st)) = sessions st \<or>
   (\<exists>s. markedStudents s = [] \<and> status s = Active \<and>
        sessions (fst (generateSessionQR rb newId sv now usr subj room st)) = sessions st @ [s])"
  by (simp add: generateSessionQR_def Let_def split: option.splits)

lemma step_length: "length (sessions st) \<le> length (sessions (step st e))"
proof (cases e)
  case (Generate rb newId sv now usr subj room)
  then show ?thesis
    using generateSessionQR_sessions [of rb newId sv now usr subj room st] by auto
next
  case (Mark ft sv now usr code)
  then show ?thesis by (simp add: markAttendance_length)
next
  case (Fire ft sv k)
  then show ?thesis by (simp add: fireTimer_def expireSession_length)
qed

lemma step_pos:
  assumes "i < length (sessions st)"
  shows "sessions (step st e) ! i = sessions st ! i \<or>
     (status (sessions st ! i) = Active \<and>
      ((\<exists>u. u \<notin> set (markedStudents (sessions st ! i)) \<and>
            sessions (step st e) ! i =
              (sessions st ! i) \<lparr> markedStudents := markedStudents (sessions st ! i) @ [u] \<rparr>) \<or>
       sessions (step st e) ! i = (sessions st ! i) \<lparr> status := Expired \<rparr>))"
proof (cases e)
  case (Generate rb newId sv now usr subj room)
  then show ?thesis
    using generateSessionQR_sessions [of rb newId sv now usr subj room st] assms
    by (auto simp: nth_append)
next
  case (Mark ft sv now usr code)
  then show ?thesis
    using markAttendance_pos [OF assms, of ft sv now usr code]
    by (auto simp: redeemable_def)
next
  case (Fire ft sv k)
  then show ?thesis
    using expireSession_pos [OF assms, of ft sv "snd (timers st ! k)"]
    by (auto simp: fireTimer_def)
qed

lemma run_pos:
  "i < length (sessions st) \<Longrightarrow>
   i < length (sessions (run st evs)) \<and>
   oid (sessions (run st evs) ! i) = oid (sessions st ! i) \<and>
   qrCode (sessions (run st evs) ! i) = qrCode (sessions st ! i) \<and>
   sessionDate (sessions (run st evs) ! i) = sessionDate (sessions st ! i) \<and>
   prefix (markedStudents (sessions st ! i)) (markedStudents (sessions (run st evs) ! i)) \<and>
   (status (sessions st ! i) = Expired \<longrightarrow> sessions (run st evs) ! i = sessions st ! i)"
proof (induction evs arbitrary: st)
  case Nil
  then show ?case by (simp add: run_def)
next
  case (Cons e evs)
  have len: "i < length (sessions (step st e))"
    using Cons.prems step_length [of st e] by simp
  have r: "run st (e # evs) = run (step st e) evs" by (simp add: run_def)
  from Cons.IH [OF len] step_pos [OF Cons.prems, of e] show ?case
    unfolding r by (auto intro: prefix_order.trans dest: append_prefixD)
qed






lemma hexDigit_inj: "m < 16 \<Longrightarrow> n < 16 \<Longrightarrow> hexDigit m = hexDigit n \<Longrightarrow> m = n"
  using nth_eq_iff_index_eq [of hexDigits m n]
  by (simp add: hexDigit_def hexDigits_def)

lemma hexDigit_mem: "hexDigit n \<in> set hexDigits"
  unfolding hexDigit_def by (rule nth_mem) (simp add: hexDigits_def)

lemma byteHex_inj: "byteHex a = byteHex b \<Longrightarrow> a = b"
proof -
  assume h: "byteHex a = byteHex b"
  have a: "unat a < 256" using unsigned_less [of a] by simp
  have b: "unat b < 256" using unsigned_less [of b] by simp
  from h have "hexDigit (unat a div 16) = hexDigit (unat b div 16)"
    and "hexDigit (unat a mod 16) = hexDigit (unat b mod 16)"
    by (simp_all add: byteHex_def)
  with a b have "unat a div 16 = unat b div 16" and "unat a mod 16 = unat b mod 16"
    by (auto intro!: hexDigit_inj)
  then have "unat a = unat b" by (metis div_mult_mod_eq)
  then show ?thesis by (rule word_unat_eq_iff [THEN iffD2])
qed

lemma length_toHex: "length (toHex bs) = 2 * length bs"
  by (induction bs) (simp_all add: toHex_def byteHex_def)

lemma set_toHex: "set (toHex bs) \<subseteq> set hexDigits"
  using hexDigit_mem by (induction bs) (auto simp: toHex_def byteHex_def)

lemma toHex_inj: "toHex a = toHex b \<Longrightarrow> a = b"
proof (induction a arbitrary: b)
  case Nil
  then show ?case by (cases b) (simp_all add: toHex_def byteHex_def)
next
  case (Cons x xs)
  show ?case
  proof (cases b)
    case Nil
    with Cons.prems show ?thesis by (simp add: toHex_def byteHex_def)
  next
    case (Cons y ys)
    with Cons.prems have "byteHex x = byteHex y" and "toHex xs = toHex ys"
      by (simp_all add: toHex_def byteHex_def)
    with Cons.IH byteHex_inj local.Cons show ?thesis by simp
  qed
qed

subsection \<open>Redemption outside the validity window\<close>




subsection \<open>Repeated redemption\<close>





subsection \<open>Expiry\<close>

text \<open>
  Claim C6. Along any sequence of create, redeem and timer events an expired session is
  never changed again, so a status only ever goes from active to expired; the timer's
  callback leaves every expired session as it is, whether or not its store calls fail,
  and running it a second time after a successful run changes nothing.
\<close>

theorem status_only_expires:
  "(\<forall>i<length (sessions st). status (sessions st ! i) = Expired
      \<longrightarrow> i < length (sessions (run st evs)) \<and> sessions (run st evs) ! i = sessions st ! i)
   \<and> (\<forall>i<length (sessions st). status (sessions (run st evs) ! i) \<noteq> status (sessions st ! i)
      \<longrightarrow> status (sessions st ! i) = Active \<and> status (sessions (run st evs) ! i) = Expired)
   \<and> (\<forall>j<length db. status (db ! j) = Expired
      \<longrightarrow> expireSession findThrows saveThrows i db ! j = db ! j)
   \<and> expireSession findThrows saveThrows i (expireSession False False i db)
       = expireSession False False i db"
proof (intro conjI allI impI)
  show "i < length (sessions (run st evs))"
    if "i < length (sessions st)" for i
    using run_pos [OF that, of evs] by simp
  show "sessions (run st evs) ! i = sessions st ! i"
    if "i < length (sessions st)" and "status (sessions st ! i) = Expired" for i
    using run_pos [OF that(1), of evs] that(2) by simp
  show "status (sessions st ! i) = Active"
    if "i < length (sessions st)"
      and "status (sessions (run st evs) ! i) \<noteq> status (sessions st ! i)" for i
    using run_pos [OF that(1), of evs] that(2)
    by (cases "status (sessions st ! i)") auto
  show "status (sessions (run st evs) ! i) = Expired"
    if "i < length (sessions st)"
      and "status (sessions (run st evs) ! i) \<noteq> status (sessions st ! i)" for i
    using run_pos [OF that(1), of evs] that(2)
    by (cases "status (sessions st ! i)"; cases "status (sessions (run st evs) ! i)") auto
  show "expireSession findThrows saveThrows i db ! j = db ! j"
    if "j < length db" and "status (db ! j) = Expired" for j
    using expireSession_pos [OF that(1), of findThrows saveThrows i] that(2) by auto
  show "expireSession findThrows saveThrows i (expireSession False False i db)
       = expireSession False False i db"
    by (simp add: expireSession_def setExpired_idem)
qed

theorem status_only_expires_witness:
  "status (sessions \<lparr> sessions = [exExpired], timers = [(120000, oid exExpired)] \<rparr> ! 0) = Expired
   \<and> sessions (run \<lparr> sessions = [exExpired], timers = [(120000, oid exExpired)] \<rparr>
        [Mark False False 1000 (Some ''stu2'') ''c0de'', Fire False False 0]) ! 0 = exExpired
   \<and> expireSession False False (oid exExpired) [exExpired] ! 0 = exExpired
   \<and> expireSession False False (oid exRedeemed) [exRedeemed] = [exExpired]"
proof -
  let ?st = "\<lparr> sessions = [exExpired], timers = [(120000, oid exExpired)] \<rparr>"
  note t = status_only_expires [of ?st "[Mark False False 1000 (Some ''stu2'') ''c0de'', Fire False False 0]"
      "[exExpired]" False False "oid exExpired"]
  have s: "status (sessions ?st ! 0) = Expired" by (simp add: exExpired_def)
  have e: "status ([exExpired] ! 0) = Expired" by (simp add: exExpired_def)
  from t s have "sessions (run ?st
        [Mark False False 1000 (Some ''stu2'') ''c0de'', Fire False False 0]) ! 0 = exExpired"
    by simp
  moreover from t e have "expireSession False False (oid exExpired) [exExpired] ! 0 = exExpired"
    by simp
  moreover have "expireSession False False (oid exRedeemed) [exRedeemed] = [exExpired]"
    by (simp add: expireSession_def exRedeemed_def exExpired_def exSession_def)
  ultimately show ?thesis using s by simp
qed

subsection \<open>Creation\<close>

text \<open>
  Claim C7. Without an identified requester the answer is 401; otherwise without a
  non-empty subject and classroom it is 400; otherwise it is 500 when the random
  generator throws, and 500 when the save is rejected. In the remaining case, the
  generator having returned its 32 bytes, the store gains one document with the
  requester as faculty, the given subject and classroom, the clock as creation time, no
  students and status active, a timer is set for two minutes later, and the answer
  carries the code, the document's identifier and "2 minutes". The code is the 64
  lower-case hex digits of the 32 bytes, and different bytes give different codes, so it
  carries 256 bits.
\<close>

theorem generateSessionQR_outcomes:
  "(usr = None
      \<longrightarrow> generateSessionQR randomBytes newId saveThrows now usr subj room st
          = (st, Error 401 ''Unauthorized: Faculty ID missing''))
   \<and> (usr = Some fac \<and> (\<not> truthy subj \<or> \<not> truthy room)
      \<longrightarrow> generateSessionQR randomBytes newId saveThrows now usr subj room st
          = (st, Error 400 ''Subject and Classroom are required''))
   \<and> (usr = Some fac \<and> truthy subj \<and> truthy room \<and> randomBytes 32 = None
      \<longrightarrow> generateSessionQR randomBytes newId saveThrows now usr subj room st
          = (st, Error 500 ''Error generating QR code''))
   \<and> (usr = Some fac \<and> truthy subj \<and> truthy room \<and> randomBytes 32 = Some bytes \<and> saveThrows
      \<longrightarrow> generateSessionQR randomBytes newId saveThrows now usr subj room st
          = (st, Error 500 ''Error generating QR code''))
   \<and> (usr = Some fac \<and> subj = Some sj \<and> sj \<noteq> [] \<and> room = Some rm \<and> rm \<noteq> []
        \<and> randomBytes 32 = Some bytes \<and> length bytes = 32 \<and> \<not> saveThrows
      \<longrightarrow> generateSessionQR randomBytes newId saveThrows now usr subj room st
          = (st \<lparr> sessions := sessions st @
                    [\<lparr> oid = newId, faculty = fac, subject = sj, sessionDate = now,
                       qrCode = toHex bytes, classRoom = rm, markedStudents = [],
                       status = Active \<rparr>],
                  timers := timers st @ [(now + 2 * 60 * 1000, newId)] \<rparr>,
             Json \<lparr> message = ''Session QR code generated successfully'',
                    qrCodeOut = toHex bytes, sessionId = newId,
                    expiresIn = ''2 minutes'' \<rparr>)
        \<and> length (toHex bytes) = 64
        \<and> set (toHex bytes) \<subseteq> set hexDigits
        \<and> 128 \<le> 8 * length bytes
        \<and> (\<forall>other. toHex other = toHex bytes \<longrightarrow> other = bytes))"
  using toHex_inj set_toHex [of bytes]
  by (auto simp: generateSessionQR_def Let_def length_toHex)

theorem generateSessionQR_outcomes_witness:
  "generateSessionQR exRandom ''64b7f0a1c2d3e4f5a6b7c8d9'' False 0 None (Some ''CS101'') (Some ''A1'') initial
     = (initial, Error 401 ''Unauthorized: Faculty ID missing'')
   \<and> generateSessionQR exRandom ''64b7f0a1c2d3e4f5a6b7c8d9'' False 0 (Some ''fac1'') (Some ''CS101'') (Some '''') initial
     = (initial, Error 400 ''Subject and Classroom are required'')
   \<and> generateSessionQR (\<lambda>n. None) ''64b7f0a1c2d3e4f5a6b7c8d9'' False 0 (Some ''fac1'') (Some ''CS101'') (Some ''A1'') initial
     = (initial, Error 500 ''Error generating QR code'')
   \<and> generateSessionQR exRandom ''64b7f0a1c2d3e4f5a6b7c8d9'' False 0 (Some ''fac1'') (Some ''CS101'') (Some ''A1'') initial
     = (\<lparr> sessions = [exSession \<lparr> qrCode := toHex (replicate 32 171) \<rparr>],
          timers = [(120000, ''64b7f0a1c2d3e4f5a6b7c8d9'')] \<rparr>,
        Json \<lparr> message = ''Session QR code generated successfully'',
               qrCodeOut = toHex (replicate 32 171), sessionId = ''64b7f0a1c2d3e4f5a6b7c8d9'',
               expiresIn = ''2 minutes'' \<rparr>)
   \<and> length (toHex (replicate 32 171)) = 64"
  using generateSessionQR_outcomes [where usr = None and randomBytes = exRandom
      and newId = "''64b7f0a1c2d3e4f5a6b7c8d9''" and saveThrows = False and now = 0
      and subj = "Some ''CS101''" and room = "Some ''A1''" and st = initial]
    generateSessionQR_outcomes [where usr = "Some ''fac1''" and fac = "''fac1''"
      and randomBytes = exRandom
      and newId = "''64b7f0a1c2d3e4f5a6b7c8d9''" and saveThrows = False and now = 0
      and subj = "Some ''CS101''" and room = "Some ''''" and st = initial]
    generateSessionQR_outcomes [where usr = "Some ''fac1''" and fac = "''fac1''"
      and randomBytes = "\<lambda>n. None"
      and newId = "''64b7f0a1c2d3e4f5a6b7c8d9''" and saveThrows = False and now = 0
      and subj = "Some ''CS101''" and room = "Some ''A1''" and st = initial]
    generateSessionQR_outcomes [where usr = "Some ''fac1''" and fac = "''fac1''"
      and randomBytes = exRandom and bytes = "replicate 32 171"
      and newId = "''64b7f0a1c2d3e4f5a6b7c8d9''" and saveThrows = False and now = 0
      and subj = "Some ''CS101''" and sj = "''CS101''" and room = "Some ''A1''"
      and rm = "''A1''" and st = initial]
  by (simp add: exRandom_def initial_def exSession_def)

section \<open>Properties of the reports\<close>









lemma distinct_addRecord:
  "distinct (map fst report) \<Longrightarrow> distinct (map fst (addRecord users report rec))"
  by (simp add: addRecord_def Let_def AList.distinct_map_entry AList.distinct_update)









lemma foldl_addRecord_distinct:
  "distinct (map fst report) \<Longrightarrow> distinct (map fst (foldl (addRecord users) report records))"
  by (induction records arbitrary: report) (simp_all add: distinct_addRecord)









lemma length_filter_newestFirst:
  "length (filter P (newestFirst records)) = length (filter P records)"
  by (simp add: newestFirst_def filter_sort)





lemma toFixed2_of_int: "toFixed2 (rat_of_int k) = rat_of_int k"
proof -
  have "\<lfloor>rat_of_int k * 100 + 1 / 2\<rfloor> = k * 100"
    by (rule floor_unique) simp_all
  then show ?thesis by (simp add: toFixed2_def)
qed






lemma map_of_addClass:
  "map_of (addClass report rec) =
     (if subject rec \<in> set objectPrototypeKeys then map_of report
      else (map_of report)(subject rec \<mapsto>
        (let n = (case map_of report (subject rec) of None \<Rightarrow> 0 | Some e \<Rightarrow> totalClasses e);
             k = (case map_of report (subject rec) of None \<Rightarrow> 0 | Some e \<Rightarrow> attended e)
         in \<lparr> totalClasses = n + 1, attended = k + 1,
              attendancePercentageOf =
                Some (toFixed2 (rat_of_nat (k + 1) / rat_of_nat (n + 1) * 100)) \<rparr>)))"
  by (auto simp: addClass_def Let_def AList.map_of_map_entry AList.update_conv'
      split: option.splits)

lemma toFixed2_100: "toFixed2 100 = 100"
  using toFixed2_of_int [of 100] by simp

lemma toFixed2_full:
  "toFixed2 ((100 + rat_of_nat n * 100) / (1 + rat_of_nat n)) = 100"
proof -
  have nz: "1 + rat_of_nat n \<noteq> 0"
    using of_nat_0_le_iff [of n, where ?'a = rat] by linarith
  then have "(100 + rat_of_nat n * 100) / (1 + rat_of_nat n) = 100"
    by (simp add: divide_eq_eq algebra_simps)
  then show ?thesis by (simp add: toFixed2_100)
qed

lemma foldl_addClass:
  "map_of (foldl addClass [] records) sj =
     (if sj \<in> set objectPrototypeKeys \<or> filter (\<lambda>r. subject r = sj) records = [] then None
      else Some \<lparr> totalClasses = length (filter (\<lambda>r. subject r = sj) records),
                  attended = length (filter (\<lambda>r. subject r = sj) records),
                  attendancePercentageOf = Some 100 \<rparr>)"
proof (induction records arbitrary: sj rule: rev_induct)
  case Nil
  then show ?case by simp
next
  case (snoc r rs)
  show ?case
  proof (cases "subject r \<in> set objectPrototypeKeys")
    case True
    then show ?thesis using snoc [of sj] by (auto simp: map_of_addClass)
  next
    case False
    show ?thesis
    proof (cases "subject r = sj")
      case True
      with False snoc [of sj]
      show ?thesis by (simp add: map_of_addClass Let_def toFixed2_full toFixed2_100)
    next
      case neq: False
      with False snoc [of sj] show ?thesis by (simp add: map_of_addClass)
    qed
  qed
qed

text \<open>
  Claim C5. For a subject of the student report, with the store answering:
  \<open>totalClasses\<close> and \<open>attended\<close> are both the number of selected sessions of that
  subject that list the student, that number is positive, and the percentage is 100.
\<close>

theorem student_report_always_full:
  assumes "getStudentAttendance False (Some student) subj db = Json report"
    and "map_of report sj = Some e"
  shows "totalClasses e = attended e
     \<and> attended e = length (filter (\<lambda>s. studentQuery student subj s \<and> subject s = sj) db)
     \<and> 0 < attended e
     \<and> attendancePercentageOf e = Some 100"
proof -
  let ?recs = "newestFirst (filter (studentQuery student subj) db)"
  from assms(1) have r: "report = foldl addClass [] ?recs"
    by (simp add: getStudentAttendance_def)
  have len: "length (filter (\<lambda>r. subject r = sj) ?recs)
      = length (filter (\<lambda>s. studentQuery student subj s \<and> subject s = sj) db)"
    by (simp add: length_filter_newestFirst conj_commute)
  from assms(2) have ne: "filter (\<lambda>r. subject r = sj) ?recs \<noteq> []"
    and e: "e = \<lparr> totalClasses = length (filter (\<lambda>r. subject r = sj) ?recs),
                  attended = length (filter (\<lambda>r. subject r = sj) ?recs),
                  attendancePercentageOf = Some 100 \<rparr>"
    unfolding r foldl_addClass by (auto split: if_splits)
  from ne have "0 < length (filter (\<lambda>r. subject r = sj) ?recs)" by simp
  with e len show ?thesis by simp
qed

lemma exStudent_report:
  "getStudentAttendance False (Some ''stu1'') None [exMorning, exAfternoon]
     = Json [(''CS101'', \<lparr> totalClasses = 2, attended = 2, attendancePercentageOf = Some 100 \<rparr>)]"
proof -
  have p: "toFixed2 (2 / 2 * 100) = 100" "toFixed2 (1 / 1 * 100) = 100"
    using toFixed2_of_int [of 100] by simp_all
  show ?thesis
    using p
    by (simp add: getStudentAttendance_def studentQuery_def newestFirst_def exMorning_def
        exAfternoon_def addClass_def Let_def objectPrototypeKeys_def)
qed

theorem student_report_always_full_witness:
  "getStudentAttendance False (Some ''stu1'') None [exMorning, exAfternoon]
     = Json [(''CS101'', \<lparr> totalClasses = 2, attended = 2, attendancePercentageOf = Some 100 \<rparr>)]
   \<and> length (filter (\<lambda>s. studentQuery ''stu1'' None s \<and> subject s = ''CS101'')
        [exMorning, exAfternoon]) = 2"
proof -
  have m: "map_of [(''CS101'', \<lparr> totalClasses = 2, attended = 2, attendancePercentageOf = Some 100 \<rparr>)]
      ''CS101'' = Some \<lparr> totalClasses = 2, attended = 2, attendancePercentageOf = Some 100 \<rparr>"
    by simp
  from student_report_always_full [OF exStudent_report m] exStudent_report
  show ?thesis by simp
qed

section \<open>Properties of session detail, export and routing\<close>

lemma find_None_owner:
  "List.find (\<lambda>s. oid s = sid \<and> faculty s = fac) db = None \<longleftrightarrow>
   (\<forall>s\<in>set db. oid s = sid \<longrightarrow> faculty s \<noteq> fac)"
  by (auto simp: find_None_iff)




text \<open>
  Claim C10. The export looks the session up by identifier and faculty together: with
  the store answering, an identifier that only sessions of other faculties have is
  answered with 404 "Session not found", as is an identifier that no session has, where
  the detail handler answers an existing session of another faculty with 403.
\<close>

theorem export_hides_foreign_session:
  "(\<not> findThrows \<and> (\<forall>s\<in>set db. oid s = sid \<longrightarrow> faculty s \<noteq> fac)
      \<longrightarrow> exportSessionToExcel findThrows writeThrows localeDate localeTime isoDay now
            users sid (Some fac) db
          = Error 404 ''Session not found'')
   \<and> (length sid = 24 \<and> (\<exists>s\<in>set db. oid s = sid)
        \<and> (\<forall>s\<in>set db. oid s = sid \<longrightarrow> faculty s \<noteq> fac)
      \<longrightarrow> getSessionDetails False False users sid (Some fac) db
          = Error 403 ''You don't have access to this session'')"
proof (intro conjI impI)
  show "exportSessionToExcel findThrows writeThrows localeDate localeTime isoDay now
            users sid (Some fac) db
          = Error 404 ''Session not found''"
    if "\<not> findThrows \<and> (\<forall>s\<in>set db. oid s = sid \<longrightarrow> faculty s \<noteq> fac)"
  proof -
    from that have "List.find (\<lambda>s. oid s = sid \<and> faculty s = fac) db = None"
      by (simp add: find_None_owner)
    with that show ?thesis by (simp add: exportSessionToExcel_def)
  qed
  show "getSessionDetails False False users sid (Some fac) db
          = Error 403 ''You don't have access to this session''"
    if "length sid = 24 \<and> (\<exists>s\<in>set db. oid s = sid)
        \<and> (\<forall>s\<in>set db. oid s = sid \<longrightarrow> faculty s \<noteq> fac)"
  proof -
    from that have "List.find (\<lambda>s. oid s = sid \<and> faculty s = fac) db = None"
      by (simp add: find_None_owner)
    with that show ?thesis by (auto simp: getSessionDetails_def list_ex_iff)
  qed
qed

theorem export_hides_foreign_session_witness:
  "oid exMorning = ''64b7f0a1c2d3e4f5a6b7c8d9'' \<and> faculty exMorning = ''fac1''
   \<and> exportSessionToExcel False False (\<lambda>t. ''1/1/1970'') (\<lambda>t. ''12:00:00 AM'')
        (\<lambda>t. ''1970-01-01'') 0 exUsers ''64b7f0a1c2d3e4f5a6b7c8d9'' (Some ''fac2'') [exMorning]
     = Error 404 ''Session not found''
   \<and> exportSessionToExcel False False (\<lambda>t. ''1/1/1970'') (\<lambda>t. ''12:00:00 AM'')
        (\<lambda>t. ''1970-01-01'') 0 exUsers ''64b7f0a1c2d3e4f5a6b7c8d9'' (Some ''fac2'') []
     = Error 404 ''Session not found''
   \<and> getSessionDetails False False exUsers ''64b7f0a1c2d3e4f5a6b7c8d9'' (Some ''fac2'') [exMorning]
     = Error 403 ''You don't have access to this session''"
  using export_hides_foreign_session [where findThrows = False and db = "[exMorning]"
      and sid = "''64b7f0a1c2d3e4f5a6b7c8d9''" and fac = "''fac2''" and writeThrows = False
      and localeDate = "\<lambda>t. ''1/1/1970''" and localeTime = "\<lambda>t. ''12:00:00 AM''"
      and isoDay = "\<lambda>t. ''1970-01-01''" and now = 0 and users = exUsers]
    export_hides_foreign_session [where findThrows = False and db = "[]"
      and sid = "''64b7f0a1c2d3e4f5a6b7c8d9''" and fac = "''fac2''" and writeThrows = False
      and localeDate = "\<lambda>t. ''1/1/1970''" and localeTime = "\<lambda>t. ''12:00:00 AM''"
      and isoDay = "\<lambda>t. ''1970-01-01''" and now = 0 and users = exUsers]
  by (simp add: exMorning_def)

text \<open>
  Claim C8. The router registers the faculty report for GET on
  \<^verbatim>\<open>/api/attendance/report\<close>; nothing is registered there for POST, the method of
  the two other handlers that read the request body.
\<close>

theorem report_route_is_get:
  "route POST [''api'', ''attendance'', ''report''] = None
   \<and> route GET [''api'', ''attendance'', ''report''] = Some (Faculty, GetAttendanceReport)
   \<and> route POST [''api'', ''attendance'', ''generate-qr''] = Some (Faculty, GenerateSessionQR)
   \<and> route POST [''api'', ''attendance'', ''mark''] = Some (Student, MarkAttendance)
   \<and> route GET [''api'', ''attendance'', ''my-attendance''] = Some (Student, GetStudentAttendance)"
  by (simp add: route_def attendanceRoutes_def)

end
